theory Spec2Isabelle
  imports Complex_Main "HOL-Library.Sublist"
begin

section \<open>Strings\<close>

text \<open>
  A requirements text is a \<open>string\<close>; each \<open>char\<close> stands for one code point below 256
  (ASCII and Latin-1), which is the repertoire this development covers. Every keyword of
  the classifiers is ASCII.
\<close>

text \<open>
  \<^verbatim>\<open>str.lower()\<close> on this repertoire: \<open>A\<close>..\<open>Z\<close> and the Latin-1 capitals
  (code points 192..222 without the multiplication sign 215) move up by 32, every other
  character stays.
\<close>

definition lower_char :: "char \<Rightarrow> char" where
  "lower_char c =
     (let n = (of_char c :: nat)
      in if (65 \<le> n \<and> n \<le> 90) \<or> (192 \<le> n \<and> n \<le> 222 \<and> n \<noteq> 215)
         then char_of (n + 32) else c)"

definition lower :: "string \<Rightarrow> string" where
  "lower s = map lower_char s"

text \<open>\<^verbatim>\<open>text.startswith(t)\<close>.\<close>

fun startswith :: "string \<Rightarrow> string \<Rightarrow> bool" where
  "startswith text [] = True"
| "startswith [] (k # ks) = False"
| "startswith (c # cs) (k # ks) = (c = k \<and> startswith cs ks)"

text \<open>\<^verbatim>\<open>t in text\<close> on strings: \<open>t\<close> occurs in \<open>text\<close> as a contiguous substring.\<close>

fun str_contains :: "string \<Rightarrow> string \<Rightarrow> bool" where
  "str_contains t [] = (t = [])"
| "str_contains t (c # cs) = (startswith (c # cs) t \<or> str_contains t cs)"

text \<open>\<^verbatim>\<open>any(term in text for term in terms)\<close>.\<close>

definition any_in :: "string list \<Rightarrow> string \<Rightarrow> bool" where
  "any_in terms text = list_ex (\<lambda>t. str_contains t text) terms"

text \<open>
  \<^verbatim>\<open>str.isspace()\<close> for one character of the repertoire: tab, line feed, vertical tab,
  form feed, carriage return, the separators 28..31, space, next line (133) and
  no-break space (160).
\<close>

definition isspace :: "char \<Rightarrow> bool" where
  "isspace c = ((of_char c :: nat) \<in> {9, 10, 11, 12, 13, 28, 29, 30, 31, 32, 133, 160})"

text \<open>
  \<^verbatim>\<open>list(dict.fromkeys(xs))\<close>: the keys of a dictionary filled from \<open>xs\<close> in order. A key
  already present keeps its place; a new key goes to the end.
\<close>

definition dict_insert :: "'a list \<Rightarrow> 'a \<Rightarrow> 'a list" where
  "dict_insert keys x = (if x \<in> set keys then keys else keys @ [x])"

definition dict_fromkeys :: "'a list \<Rightarrow> 'a list" where
  "dict_fromkeys xs = foldl dict_insert [] xs"

text \<open>The position of the first occurrence of \<open>x\<close> in \<open>xs\<close> (\<open>length xs\<close> when there is none).\<close>

definition first_index :: "'a list \<Rightarrow> 'a \<Rightarrow> nat" where
  "first_index xs x = length (takeWhile (\<lambda>y. y \<noteq> x) xs)"

section \<open>The requirements classifiers\<close>

subsection \<open>DirectBuildingBlockGenerator.analyze_requirements\<close>

text \<open>
  \<^verbatim>\<open>UnifiedPowerPointGenerator.analyze_requirements\<close> has the same body. The list
  \<open>categories\<close> as it stands before the duplicates are removed is \<open>direct_categories\<close>.
\<close>

definition direct_categories :: "string \<Rightarrow> string list" where
  "direct_categories requirements =
     (let req_lower = lower requirements;
          categories = [];
          categories =
            (if any_in [''user experience'', ''ux'', ''frontend'', ''application layer'',
                        ''app layer'', ''web'', ''portal''] req_lower
             then categories @ [''web_application''] else categories);
          categories =
            (if any_in [''data and intelligence'', ''data intelligence'', ''analytics'',
                        ''ai'', ''machine learning''] req_lower
             then (let categories = categories @ [''ai_analytics'']
                   in if str_contains ''data'' req_lower
                      then categories @ [''data_platform''] else categories)
             else categories);
          categories =
            (if any_in [''integration layer'', ''integration'', ''api''] req_lower
             then categories @ [''integration''] else categories)
      in categories)"

definition analyze_requirements :: "string \<Rightarrow> string list" where
  "analyze_requirements requirements = dict_fromkeys (direct_categories requirements)"

subsection \<open>BuildingBlockAgent.analyze_requirements\<close>

definition ai_keywords :: "string list" where
  "ai_keywords = [''ai'', ''analytics'', ''machine learning'', ''ml'', ''data science'',
                  ''openai'', ''chatbot'', ''intelligent'', ''prediction'']"

definition web_keywords :: "string list" where
  "web_keywords = [''web'', ''website'', ''portal'', ''api'', ''frontend'', ''backend'',
                   ''application'', ''app'']"

definition data_keywords :: "string list" where
  "data_keywords = [''database'', ''data'', ''storage'', ''sql'', ''cosmos'', ''warehouse'',
                    ''lake'']"

definition integration_keywords :: "string list" where
  "integration_keywords = [''integration'', ''api'', ''messaging'', ''event'', ''workflow'',
                           ''automation'']"

definition security_keywords :: "string list" where
  "security_keywords = [''security'', ''authentication'', ''authorization'', ''identity'',
                        ''firewall'', ''compliance'']"

text \<open>
  The list \<open>needed_categories\<close> before the duplicates are removed. Every \<open>if\<close> of the
  source is one step, in the source's order; the last step is the unconditional append.
\<close>

definition agent_needed_categories :: "string \<Rightarrow> string list" where
  "agent_needed_categories requirements =
     (let requirements_lower = lower requirements;
          needed = [];
          needed =
            (if str_contains ''user experience'' requirements_lower
                \<or> str_contains ''ux'' requirements_lower
                \<or> str_contains ''frontend'' requirements_lower
             then needed @ [''web_application''] else needed);
          needed =
            (if str_contains ''application layer'' requirements_lower
                \<or> str_contains ''app layer'' requirements_lower
             then needed @ [''web_application''] else needed);
          needed =
            (if str_contains ''data and intelligence'' requirements_lower
                \<or> str_contains ''data intelligence'' requirements_lower
                \<or> str_contains ''analytics'' requirements_lower
             then needed @ [''ai_analytics''] @ [''data_platform''] else needed);
          needed =
            (if str_contains ''integration layer'' requirements_lower
             then needed @ [''integration''] else needed);
          needed =
            (if any_in ai_keywords requirements_lower
             then needed @ [''ai_analytics''] else needed);
          needed =
            (if any_in web_keywords requirements_lower
             then needed @ [''web_application''] else needed);
          needed =
            (if any_in data_keywords requirements_lower
             then needed @ [''data_platform''] else needed);
          needed =
            (if any_in integration_keywords requirements_lower
             then needed @ [''integration''] else needed);
          needed =
            (if any_in security_keywords requirements_lower
             then needed @ [''security''] else needed);
          needed = needed @ [''infrastructure'']
      in needed)"

text \<open>
  The category list after \<^verbatim>\<open>list(dict.fromkeys(needed_categories))\<close>. The method
  then renders this list into its returned text, one bullet line for each category, in
  this order.
\<close>

definition agent_analyze_requirements :: "string \<Rightarrow> string list" where
  "agent_analyze_requirements requirements =
     dict_fromkeys (agent_needed_categories requirements)"

section \<open>The layout engine\<close>

text \<open>
  Lengths are inches. The source computes them in binary floating point and hands them to
  \<^verbatim>\<open>Inches(...)\<close>; here they are exact rationals, written with the source's decimal
  literals. Counters and list lengths are Python ints, here \<open>int\<close>.
\<close>

text \<open>The exceptions the layout routines raise; a NameError carries the unbound name.\<close>

datatype error = ZeroDivisionError | NameError string

text \<open>\<^verbatim>\<open>a // b\<close> and \<^verbatim>\<open>a % b\<close> on ints: both raise when \<open>b\<close> is zero.\<close>

definition py_floordiv :: "int \<Rightarrow> int \<Rightarrow> error + int" where
  "py_floordiv a b = (if b = 0 then Inl ZeroDivisionError else Inr (a div b))"

definition py_mod :: "int \<Rightarrow> int \<Rightarrow> error + int" where
  "py_mod a b = (if b = 0 then Inl ZeroDivisionError else Inr (a mod b))"

text \<open>
  A slide is the list of its shapes in the order they were added. Each shape carries
  left, top, width and height. A text box carries its text, a rounded rectangle the
  category id it was drawn for (title, bullet lines and fill colour are looked up from
  that id), a rectangle the name of its cross-cutting service.
\<close>

datatype shape =
    TextBox rat rat rat rat string
  | RoundedRectangle rat rat rat rat string
  | Rectangle rat rat rat rat string

fun geometry :: "shape \<Rightarrow> rat \<times> rat \<times> rat \<times> rat" where
  "geometry (TextBox x y w h t) = (x, y, w, h)"
| "geometry (RoundedRectangle x y w h c) = (x, y, w, h)"
| "geometry (Rectangle x y w h s) = (x, y, w, h)"

fun is_block :: "shape \<Rightarrow> bool" where
  "is_block (RoundedRectangle x y w h c) = True"
| "is_block s = False"

fun is_cross_cutting_box :: "shape \<Rightarrow> bool" where
  "is_cross_cutting_box (Rectangle x y w h s) = True"
| "is_cross_cutting_box s = False"

text \<open>The category blocks of a slide, and the boxes of its cross-cutting strip.\<close>

definition blocks :: "shape list \<Rightarrow> shape list" where
  "blocks slide = filter is_block slide"

definition cross_cutting_boxes :: "shape list \<Rightarrow> shape list" where
  "cross_cutting_boxes slide = filter is_cross_cutting_box slide"

text \<open>
  The block of one category at grid position \<open>(row, col)\<close>:
  \<^verbatim>\<open>x_pos = start_x + col * (block_width + spacing_x)\<close>,
  \<^verbatim>\<open>y_pos = start_y + row * (block_height + spacing_y)\<close>, with \<open>start_x = 0.5\<close>,
  \<open>spacing_x = 0.3\<close> and \<open>spacing_y = 0.4\<close> in every variant; \<open>start_y\<close> differs.
\<close>

definition block_shape :: "rat \<Rightarrow> rat \<Rightarrow> rat \<Rightarrow> int \<Rightarrow> int \<Rightarrow> string \<Rightarrow> shape" where
  "block_shape start_y block_width block_height row col category =
     (let start_x = 0.5; spacing_x = 0.3; spacing_y = 0.4;
          x_pos = start_x + of_int col * (block_width + spacing_x);
          y_pos = start_y + of_int row * (block_height + spacing_y)
      in RoundedRectangle x_pos y_pos block_width block_height category)"

text \<open>
  The loop over the cross-cutting services: one rectangle for each service, left to right,
  \<^verbatim>\<open>x_pos = start_x_cross + i * (box_width + spacing_x_cross)\<close>.
\<close>

definition cross_cutting_strip :: "string list \<Rightarrow> rat \<Rightarrow> shape list" where
  "cross_cutting_strip services security_y_pos =
     (let box_width = 1.25; box_height = 0.6; start_x_cross = 0.5; spacing_x_cross = 0.05
      in map (\<lambda>(i, service).
                Rectangle (start_x_cross + of_nat i * (box_width + spacing_x_cross))
                  security_y_pos box_width box_height service)
           (enumerate 0 services))"

subsection \<open>DirectBuildingBlockGenerator.create_conceptual_slide\<close>

text \<open>
  \<^verbatim>\<open>UnifiedPowerPointGenerator.create_conceptual_slide\<close> has the same body. The keys of
  \<^verbatim>\<open>self.conceptual_blocks\<close>:
\<close>

definition conceptual_blocks :: "string list" where
  "conceptual_blocks = [''web_application'', ''ai_analytics'', ''data_platform'', ''integration'']"

definition conceptual_cross_cutting :: "string list" where
  "conceptual_cross_cutting =
     [''Security & Compliance'', ''Network Security'', ''Monitoring & Defense'',
      ''Data Encryption'', ''System Monitoring'', ''Backup & Recovery'', ''Identity Management'']"

text \<open>Blocks per row, block width and block height from the number of categories.\<close>

definition conceptual_layout :: "int \<Rightarrow> int \<times> rat \<times> rat" where
  "conceptual_layout num_categories =
     (if num_categories \<le> 3 then (num_categories, 2.8, 2.2) else (3, 2.5, 2.0))"

text \<open>
  The loop \<^verbatim>\<open>for i, category in enumerate(categories)\<close>. A category that is not a key of
  the catalog adds nothing, and \<open>i\<close> moves on all the same. The second component is the
  exception that ended the loop, if any.
\<close>

fun conceptual_loop ::
  "int \<Rightarrow> rat \<Rightarrow> rat \<Rightarrow> (nat \<times> string) list \<Rightarrow> shape list \<Rightarrow> shape list \<times> error option" where
  "conceptual_loop blocks_per_row block_width block_height [] slide = (slide, None)"
| "conceptual_loop blocks_per_row block_width block_height ((i, category) # rest) slide =
     (if category \<in> set conceptual_blocks then
        (case py_floordiv (int i) blocks_per_row of
           Inl e \<Rightarrow> (slide, Some e)
         | Inr row \<Rightarrow>
             (case py_mod (int i) blocks_per_row of
                Inl e \<Rightarrow> (slide, Some e)
              | Inr col \<Rightarrow>
                  conceptual_loop blocks_per_row block_width block_height rest
                    (slide @ [block_shape 1.3 block_width block_height row col category])))
      else conceptual_loop blocks_per_row block_width block_height rest slide)"

text \<open>
  The shapes added to the new slide, and either the exception raised or the returned pair
  \<^verbatim>\<open>(security_y_pos, box_height)\<close>. An exception leaves the shapes added before it.
\<close>

definition create_conceptual_slide :: "string list \<Rightarrow> shape list \<times> (error + rat \<times> rat)" where
  "create_conceptual_slide categories =
     (let slide = [TextBox 0.5 0.3 9 0.8 ''Conceptual Architecture Building Blocks''];
          num_categories = int (length categories);
          (blocks_per_row, block_width, block_height) = conceptual_layout num_categories;
          start_y = 1.3; spacing_y = 0.4
      in case conceptual_loop blocks_per_row block_width block_height
                (enumerate 0 categories) slide of
           (slide, Some e) \<Rightarrow> (slide, Inl e)
         | (slide, None) \<Rightarrow>
             (case py_floordiv (num_categories - 1) blocks_per_row of
                Inl e \<Rightarrow> (slide, Inl e)
              | Inr q \<Rightarrow>
                  (let security_y_pos =
                         start_y + of_int (q + 1) * (block_height + spacing_y) + 0.3;
                       box_height = 0.6;
                       slide = slide @ cross_cutting_strip conceptual_cross_cutting security_y_pos;
                       slide = slide @ [TextBox 0.5 (security_y_pos - 0.3) 9 0.25
                                 ''Cross-cutting Security and Infrastructure Services'']
                   in (slide, Inr (security_y_pos, box_height)))))"

subsection \<open>BuildingBlockAgent.create_building_block_slide\<close>

text \<open>The keys of \<^verbatim>\<open>self.service_recommendations\<close> of BuildingBlockAgent:\<close>

definition service_recommendations :: "string list" where
  "service_recommendations =
     [''ai_analytics'', ''web_application'', ''data_platform'', ''integration'', ''security'',
      ''infrastructure'']"

definition cross_cutting_services :: "string list" where
  "cross_cutting_services =
     [''Azure Policy and Compliance'', ''Azure Firewall and DDoS'',
      ''Microsoft Sentinel and Defender'', ''Encryption'', ''Azure Monitor'',
      ''Azure Backup and BCDR'', ''Microsoft Entra ID'']"

text \<open>
  Blocks per row, block width and block height from \<open>num_categories\<close>, which in this
  variant counts only the categories that are keys of the catalog.
\<close>

definition building_block_layout :: "int \<Rightarrow> int \<times> rat \<times> rat" where
  "building_block_layout num_categories =
     (if num_categories \<le> 3 then (num_categories, 2.8, 2.0)
      else if num_categories \<le> 6 then (3, 2.5, 1.8)
      else (3, 2.2, 1.5))"

text \<open>
  The loop over the categories with its two counters: \<open>row\<close> and \<open>col\<close> move only after a
  block has been drawn.
\<close>

fun building_block_loop ::
  "int \<Rightarrow> rat \<Rightarrow> rat \<Rightarrow> string list \<Rightarrow> int \<times> int \<Rightarrow> shape list \<Rightarrow> (int \<times> int) \<times> shape list" where
  "building_block_loop blocks_per_row block_width block_height [] (row, col) slide =
     ((row, col), slide)"
| "building_block_loop blocks_per_row block_width block_height (category # rest) (row, col) slide =
     (if category \<in> set service_recommendations then
        (let slide = slide @ [block_shape 1.8 block_width block_height row col category];
             col = col + 1;
             (row, col) = (if col \<ge> blocks_per_row then (row + 1, 0) else (row, col))
         in building_block_loop blocks_per_row block_width block_height rest (row, col) slide)
      else building_block_loop blocks_per_row block_width block_height rest (row, col) slide)"

text \<open>
  The shapes added to the new slide and the outcome. The body runs inside
  \<^verbatim>\<open>try\<close>; the \<^verbatim>\<open>except\<close> clause turns an exception into the returned error text,
  here \<open>Inl\<close> of the exception. On success the returned text reports
  \<^verbatim>\<open>len(categories)\<close>, here \<open>Inr\<close> of that number.
\<close>

definition create_building_block_slide ::
  "string \<Rightarrow> string \<Rightarrow> string list \<Rightarrow> shape list \<times> (error + nat)" where
  "create_building_block_slide title requirements categories =
     (let slide = [TextBox 0.5 0.5 9 1 title];
          num_categories =
            int (length (filter (\<lambda>cat. cat \<in> set service_recommendations) categories));
          (blocks_per_row, block_width, block_height) = building_block_layout num_categories;
          start_y = 1.8; spacing_y = 0.4;
          (counters, slide) =
            building_block_loop blocks_per_row block_width block_height categories (0, 0) slide
      in case py_floordiv (num_categories - 1) blocks_per_row of
           Inl e \<Rightarrow> (slide, Inl e)
         | Inr q \<Rightarrow>
             (let security_y_pos = start_y + of_int (q + 1) * (block_height + spacing_y) + 0.3;
                  box_height = 0.6;
                  slide = slide @ cross_cutting_strip cross_cutting_services security_y_pos;
                  slide = slide @ [TextBox 0.5 (security_y_pos - 0.3) 9 0.25
                            ''Cross-cutting Security and Infrastructure Services''];
                  req_y_pos = security_y_pos + box_height + 0.2;
                  slide = slide @ [TextBox 0.5 req_y_pos 9 0.5 (''Requirements: '' @ requirements)]
              in (slide, Inr (length categories))))"

subsection \<open>DirectBuildingBlockGenerator.create_azure_specific_slide\<close>

text \<open>
  \<^verbatim>\<open>self.service_recommendations\<close> of DirectBuildingBlockGenerator: each category with
  the list under its key \<^verbatim>\<open>"services"\<close>.
\<close>

definition direct_service_recommendations :: "(string \<times> string list) list" where
  "direct_service_recommendations =
     [(''web_application'',
        [''Azure Web Apps'', ''Azure Container Apps'', ''Azure Kubernetes Service'',
         ''Azure Front Door'']),
      (''ai_analytics'',
        [''Azure OpenAI'', ''Microsoft Fabric'', ''Azure Databricks'', ''Azure AI Services'']),
      (''data_platform'',
        [''Azure SQL Database'', ''Azure Cosmos DB'', ''Azure Storage'', ''Azure Data Factory'']),
      (''integration'',
        [''Azure API Management'', ''Azure Service Bus'', ''Azure Logic Apps'',
         ''Azure Event Grid''])]"

definition azure_cross_cutting_services :: "string list" where
  "azure_cross_cutting_services =
     [''Azure Policy and Compliance'', ''Azure Firewall and DDoS'',
      ''Microsoft Sentinel and Defender'', ''Encryption'', ''Azure Monitor'',
      ''Azure Backup and BCDR'', ''Microsoft Entra ID'']"

text \<open>
  Blocks per row, block width and block height from the number of categories; the method
  repeats the rule of create_conceptual_slide.
\<close>

definition azure_specific_layout :: "int \<Rightarrow> int \<times> rat \<times> rat" where
  "azure_specific_layout num_categories =
     (if num_categories \<le> 3 then (num_categories, 2.8, 2.2) else (3, 2.5, 2.0))"

text \<open>
  The loop \<^verbatim>\<open>for j, service in enumerate(services[:4])\<close> inside a block. Its first
  pass adds a paragraph to the block's text frame and then evaluates the arguments of
  \<^verbatim>\<open>self.load_azure_icon_image(slide, (shape.left / 914400) - 0.35, ...)\<close>. The name
  \<open>shape\<close> is bound nowhere in the method or the module, so this raises NameError before
  the icon loader is entered.
\<close>

fun azure_services_loop :: "(nat \<times> string) list \<Rightarrow> error option" where
  "azure_services_loop [] = None"
| "azure_services_loop ((j, service) # rest) = Some (NameError ''shape'')"

text \<open>
  The loop \<^verbatim>\<open>for i, category in enumerate(categories)\<close>: a category that is a key of the
  catalog gets its block at row \<open>i // blocks_per_row\<close> and column \<open>i % blocks_per_row\<close>,
  and then the loop over its services runs.
\<close>

fun azure_loop ::
  "int \<Rightarrow> rat \<Rightarrow> rat \<Rightarrow> (nat \<times> string) list \<Rightarrow> shape list \<Rightarrow> shape list \<times> error option" where
  "azure_loop blocks_per_row block_width block_height [] slide = (slide, None)"
| "azure_loop blocks_per_row block_width block_height ((i, category) # rest) slide =
     (case map_of direct_service_recommendations category of
        None \<Rightarrow> azure_loop blocks_per_row block_width block_height rest slide
      | Some services \<Rightarrow>
          (case py_floordiv (int i) blocks_per_row of
             Inl e \<Rightarrow> (slide, Some e)
           | Inr row \<Rightarrow>
               (case py_mod (int i) blocks_per_row of
                  Inl e \<Rightarrow> (slide, Some e)
                | Inr col \<Rightarrow>
                    (let slide = slide @ [block_shape 1.3 block_width block_height row col category]
                     in case azure_services_loop (enumerate 0 (take 4 services)) of
                          Some e \<Rightarrow> (slide, Some e)
                        | None \<Rightarrow>
                            azure_loop blocks_per_row block_width block_height rest slide))))"

text \<open>
  The loop over the cross-cutting services. Each pass adds its rectangle and then evaluates
  \<^verbatim>\<open>self.load_azure_icon_image(slide, (service_shape.left / 914400), ...)\<close>; the name
  \<open>service_shape\<close> is bound nowhere either, so the first pass raises NameError after its
  rectangle has been added.
\<close>

fun azure_strip_loop ::
  "rat \<Rightarrow> (nat \<times> string) list \<Rightarrow> shape list \<Rightarrow> shape list \<times> error option" where
  "azure_strip_loop security_y_pos [] slide = (slide, None)"
| "azure_strip_loop security_y_pos ((i, service) # rest) slide =
     (let box_width = 1.25; box_height = 0.6; start_x_cross = 0.5; spacing_x_cross = 0.05;
          x_pos = start_x_cross + of_nat i * (box_width + spacing_x_cross)
      in (slide @ [Rectangle x_pos security_y_pos box_width box_height service],
          Some (NameError ''service_shape'')))"

text \<open>
  The shapes added to the new slide, and either the exception raised or the returned pair
  \<^verbatim>\<open>(security_y_pos, box_height)\<close>.
\<close>

definition create_azure_specific_slide :: "string list \<Rightarrow> shape list \<times> (error + rat \<times> rat)" where
  "create_azure_specific_slide categories =
     (let slide = [TextBox 0.5 0.3 9 0.8 ''Azure Solution Architecture Building Blocks''];
          num_categories = int (length categories);
          (blocks_per_row, block_width, block_height) = azure_specific_layout num_categories;
          start_y = 1.3; spacing_y = 0.4
      in case azure_loop blocks_per_row block_width block_height (enumerate 0 categories) slide of
           (slide, Some e) \<Rightarrow> (slide, Inl e)
         | (slide, None) \<Rightarrow>
             (case py_floordiv (num_categories - 1) blocks_per_row of
                Inl e \<Rightarrow> (slide, Inl e)
              | Inr q \<Rightarrow>
                  (let security_y_pos =
                         start_y + of_int (q + 1) * (block_height + spacing_y) + 0.3;
                       box_height = 0.6
                   in case azure_strip_loop security_y_pos
                             (enumerate 0 azure_cross_cutting_services) slide of
                        (slide, Some e) \<Rightarrow> (slide, Inl e)
                      | (slide, None) \<Rightarrow>
                          (let slide = slide @ [TextBox 0.5 (security_y_pos - 0.3) 9 0.25
                                 ''Cross-cutting Security and Infrastructure Services'']
                           in (slide, Inr (security_y_pos, box_height))))))"

section \<open>Facts about the helpers\<close>

lemma dict_fromkeys_snoc: "dict_fromkeys (xs @ [x]) = dict_insert (dict_fromkeys xs) x"
  by (simp add: dict_fromkeys_def)

lemma set_dict_fromkeys: "set (dict_fromkeys xs) = set xs"
  by (induction xs rule: rev_induct) (auto simp: dict_fromkeys_snoc dict_insert_def dict_fromkeys_def)

lemma distinct_dict_fromkeys: "distinct (dict_fromkeys xs)"
  by (induction xs rule: rev_induct) (auto simp: dict_fromkeys_snoc dict_insert_def dict_fromkeys_def)

lemma first_index_append_mem: "x \<in> set xs \<Longrightarrow> first_index (xs @ ys) x = first_index xs x"
  unfolding first_index_def by (induction xs) auto

lemma first_index_less: "x \<in> set xs \<Longrightarrow> first_index xs x < length xs"
  unfolding first_index_def by (induction xs) auto

lemma first_index_snoc_new: "x \<notin> set xs \<Longrightarrow> first_index (xs @ [x]) x = length xs"
  unfolding first_index_def by (induction xs) auto

lemma sorted_wrt_cong_set:
  "(\<And>a b. a \<in> set xs \<Longrightarrow> b \<in> set xs \<Longrightarrow> P a b = Q a b) \<Longrightarrow> sorted_wrt P xs = sorted_wrt Q xs"
  by (induction xs) auto

lemma dict_fromkeys_distinct_id: "distinct xs \<Longrightarrow> dict_fromkeys xs = xs"
  by (induction xs rule: rev_induct) (auto simp: dict_fromkeys_snoc dict_insert_def set_dict_fromkeys dict_fromkeys_def)

lemma dict_fromkeys_snoc_new: "x \<notin> set xs \<Longrightarrow> dict_fromkeys (xs @ [x]) = dict_fromkeys xs @ [x]"
  by (simp add: dict_fromkeys_snoc dict_insert_def set_dict_fromkeys)

lemma dict_fromkeys_first_wins:
  "sorted_wrt (\<lambda>a b. first_index xs a < first_index xs b) (dict_fromkeys xs)"
proof (induction xs rule: rev_induct)
  case Nil
  show ?case by (simp add: dict_fromkeys_def)
next
  case (snoc x xs)
  have "sorted_wrt (\<lambda>a b. first_index (xs @ [x]) a < first_index (xs @ [x]) b) (dict_fromkeys xs)
      = sorted_wrt (\<lambda>a b. first_index xs a < first_index xs b) (dict_fromkeys xs)"
    by (rule sorted_wrt_cong_set) (simp add: set_dict_fromkeys first_index_append_mem)
  with snoc.IH have old:
    "sorted_wrt (\<lambda>a b. first_index (xs @ [x]) a < first_index (xs @ [x]) b) (dict_fromkeys xs)"
    by simp
  show ?case
  proof (cases "x \<in> set xs")
    case True
    then show ?thesis using old by (simp add: dict_fromkeys_snoc dict_insert_def set_dict_fromkeys)
  next
    case False
    then show ?thesis using old
      by (simp add: dict_fromkeys_snoc dict_insert_def set_dict_fromkeys sorted_wrt_append
            first_index_snoc_new first_index_append_mem first_index_less)
  qed
qed

lemma direct_subseq: "subseq (direct_categories r) [''web_application'', ''ai_analytics'', ''data_platform'', ''integration'']"
  by (simp add: direct_categories_def Let_def)

lemma direct_distinct: "distinct (direct_categories r)"
  by (simp add: direct_categories_def Let_def)

lemma direct_no_infra: "''infrastructure'' \<notin> set (direct_categories r)"
  by (simp add: direct_categories_def Let_def)

lemma if_append_right: "(if c then xs @ ys else xs) = xs @ (if c then ys else [])"
  by simp

lemma mem_set_if_nil: "x \<in> set (if c then ys else []) \<longleftrightarrow> c \<and> x \<in> set ys"
  by simp

lemma subseq_if_nil: "subseq (if c then ys else []) ys"
  by simp

lemma agent_needed_shape:
  "\<exists>b1 b2 b3 b4 b5 b6 b7 b8 b9. agent_needed_categories r =
     (if b1 then [''web_application''] else []) @
     (if b2 then [''web_application''] else []) @
     (if b3 then [''ai_analytics'', ''data_platform''] else []) @
     (if b4 then [''integration''] else []) @
     (if b5 then [''ai_analytics''] else []) @
     (if b6 then [''web_application''] else []) @
     (if b7 then [''data_platform''] else []) @
     (if b8 then [''integration''] else []) @
     (if b9 then [''security''] else []) @ [''infrastructure'']"
  unfolding agent_needed_categories_def
  apply (simp only: if_append_right append_Nil append.simps Let_def append_assoc)
  apply (intro exI)
  apply (rule refl)
  done

lemma agent_needed_last:
  "\<exists>pre. agent_needed_categories r = pre @ [''infrastructure''] \<and> ''infrastructure'' \<notin> set pre"
proof -
  obtain b1 b2 b3 b4 b5 b6 b7 b8 b9 where eq: "agent_needed_categories r =
     ((if b1 then [''web_application''] else []) @
     (if b2 then [''web_application''] else []) @
     (if b3 then [''ai_analytics'', ''data_platform''] else []) @
     (if b4 then [''integration''] else []) @
     (if b5 then [''ai_analytics''] else []) @
     (if b6 then [''web_application''] else []) @
     (if b7 then [''data_platform''] else []) @
     (if b8 then [''integration''] else []) @
     (if b9 then [''security''] else [])) @ [''infrastructure'']"
    using agent_needed_shape [of r] by (simp only: append_assoc) blast
  have "''infrastructure'' \<notin> set ((if b1 then [''web_application''] else []) @
     (if b2 then [''web_application''] else []) @
     (if b3 then [''ai_analytics'', ''data_platform''] else []) @
     (if b4 then [''integration''] else []) @
     (if b5 then [''ai_analytics''] else []) @
     (if b6 then [''web_application''] else []) @
     (if b7 then [''data_platform''] else []) @
     (if b8 then [''integration''] else []) @
     (if b9 then [''security''] else []))"
    by (simp add: mem_set_if_nil split del: if_split)
  with eq show ?thesis by blast
qed

lemma agent_needed_subseq:
  "subseq (agent_needed_categories r)
     [''web_application'', ''web_application'', ''ai_analytics'', ''data_platform'',
      ''integration'', ''ai_analytics'', ''web_application'', ''data_platform'',
      ''integration'', ''security'', ''infrastructure'']"
proof -
  have split: "[''web_application'', ''web_application'', ''ai_analytics'', ''data_platform'',
      ''integration'', ''ai_analytics'', ''web_application'', ''data_platform'',
      ''integration'', ''security'', ''infrastructure''] =
      [''web_application''] @ [''web_application''] @ [''ai_analytics'', ''data_platform''] @
      [''integration''] @ [''ai_analytics''] @ [''web_application''] @ [''data_platform''] @
      [''integration''] @ [''security''] @ [''infrastructure'']"
    by simp
  obtain b1 b2 b3 b4 b5 b6 b7 b8 b9 where eq: "agent_needed_categories r =
     (if b1 then [''web_application''] else []) @
     (if b2 then [''web_application''] else []) @
     (if b3 then [''ai_analytics'', ''data_platform''] else []) @
     (if b4 then [''integration''] else []) @
     (if b5 then [''ai_analytics''] else []) @
     (if b6 then [''web_application''] else []) @
     (if b7 then [''data_platform''] else []) @
     (if b8 then [''integration''] else []) @
     (if b9 then [''security''] else []) @ [''infrastructure'']"
    using agent_needed_shape [of r] by blast
  show ?thesis
    unfolding eq split
    by (intro list_emb_append_mono subseq_if_nil subseq_order.order_refl)
qed

lemma str_contains_head_mem: "str_contains (k # ks) t \<Longrightarrow> k \<in> set t"
  by (induction t) auto

lemma lower_char_isspace: "isspace c \<Longrightarrow> lower_char c = c"
  by (auto simp: isspace_def lower_char_def Let_def)

lemma lower_whitespace: "\<forall>c\<in>set r. isspace c \<Longrightarrow> \<forall>c\<in>set (lower r). isspace c"
  by (auto simp: lower_def lower_char_isspace)

lemma whitespace_no_keyword:
  "\<forall>c\<in>set t. isspace c \<Longrightarrow> \<not> isspace k \<Longrightarrow> \<not> str_contains (k # ks) t"
  using str_contains_head_mem by blast

lemma direct_categories_whitespace:
  assumes "\<forall>c\<in>set r. isspace c"
  shows "direct_categories r = []"
proof -
  have ws: "\<forall>c\<in>set (lower r). isspace c"
    using assms by (rule lower_whitespace)
  have no: "\<And>k ks. \<not> isspace k \<Longrightarrow> \<not> str_contains (k # ks) (lower r)"
    using ws by (rule whitespace_no_keyword)
  show ?thesis
    by (simp add: direct_categories_def any_in_def Let_def no isspace_def)
qed

lemma agent_needed_whitespace:
  assumes "\<forall>c\<in>set r. isspace c"
  shows "agent_needed_categories r = [''infrastructure'']"
proof -
  have ws: "\<forall>c\<in>set (lower r). isspace c"
    using assms by (rule lower_whitespace)
  have no: "\<And>k ks. \<not> isspace k \<Longrightarrow> \<not> str_contains (k # ks) (lower r)"
    using ws by (rule whitespace_no_keyword)
  show ?thesis
    by (simp add: agent_needed_categories_def any_in_def Let_def no isspace_def
          ai_keywords_def web_keywords_def data_keywords_def integration_keywords_def
          security_keywords_def)
qed

lemma direct_data_after_ai:
  "''data_platform'' \<in> set (direct_categories r) \<Longrightarrow>
     ''ai_analytics'' \<in> set (direct_categories r) \<and>
     first_index (direct_categories r) ''ai_analytics''
       < first_index (direct_categories r) ''data_platform''"
  by (simp add: direct_categories_def Let_def first_index_def split: if_splits)

lemma direct_data_needs_ai_keyword:
  "''data_platform'' \<in> set (direct_categories r) \<Longrightarrow>
     any_in [''data and intelligence'', ''data intelligence'', ''analytics'', ''ai'',
             ''machine learning''] (lower r)"
  by (simp add: direct_categories_def Let_def split: if_splits)

section \<open>Facts about the layout engine\<close>

lemma conceptual_loop_char:
  "bpr \<noteq> 0 \<Longrightarrow>
   conceptual_loop bpr w h ps slide =
     (slide @ map (\<lambda>(i, c). block_shape 1.3 w h (int i div bpr) (int i mod bpr) c)
                (filter (\<lambda>(i, c). c \<in> set conceptual_blocks) ps), None)"
  by (induction ps arbitrary: slide) (auto simp: py_floordiv_def py_mod_def)

lemma grid_position:
  fixes row col bpr :: int
  assumes "0 \<le> col" "col < bpr" "int n = row * bpr + col"
  shows "int n div bpr = row" and "int n mod bpr = col"
  using assms by simp_all

lemma building_block_loop_char:
  "0 \<le> col \<Longrightarrow> col < bpr \<Longrightarrow> int n = row * bpr + col \<Longrightarrow>
   snd (building_block_loop bpr w h cats (row, col) slide) =
     slide @ map (\<lambda>(j, c). block_shape 1.8 w h (int j div bpr) (int j mod bpr) c)
               (enumerate n (filter (\<lambda>cat. cat \<in> set service_recommendations) cats))"
proof (induction cats arbitrary: row col n slide)
  case Nil
  then show ?case by simp
next
  case (Cons c cats)
  show ?case
  proof (cases "c \<in> set service_recommendations")
    case False
    then show ?thesis using Cons.IH [OF Cons.prems] by simp
  next
    case True
    have here: "int n div bpr = row" "int n mod bpr = col"
      using grid_position [OF Cons.prems] by simp_all
    show ?thesis
    proof (cases "col + 1 \<ge> bpr")
      case wrap: True
      have "int (Suc n) = (row + 1) * bpr + 0"
        using wrap Cons.prems by (simp add: algebra_simps)
      from Cons.IH [OF _ _ this] Cons.prems(1,2) True wrap here show ?thesis
        by simp
    next
      case stay: False
      have "int (Suc n) = row * bpr + (col + 1)"
        using Cons.prems by simp
      from Cons.IH [OF _ _ this] Cons.prems(1) True stay here show ?thesis
        by simp
    qed
  qed
qed

lemma building_block_loop_none:
  "filter (\<lambda>cat. cat \<in> set service_recommendations) cats = [] \<Longrightarrow>
   snd (building_block_loop bpr w h cats rc slide) = slide"
proof (induction cats arbitrary: rc)
  case Nil
  then show ?case by (cases rc) simp
next
  case (Cons c cats)
  then show ?case by (cases rc) (simp split: if_splits)
qed

lemma is_block_block_shape: "is_block (block_shape sy w h row col c)"
  by (simp add: block_shape_def Let_def)

lemma not_box_block_shape: "\<not> is_cross_cutting_box (block_shape sy w h row col c)"
  by (simp add: block_shape_def Let_def)

lemma blocks_of_block_shapes:
  "filter is_block (map (\<lambda>(i, c). block_shape sy w h (f i) (g i) c) ps)
     = map (\<lambda>(i, c). block_shape sy w h (f i) (g i) c) ps"
  by (induction ps) (auto simp: is_block_block_shape)

lemma boxes_of_block_shapes:
  "filter is_cross_cutting_box (map (\<lambda>(i, c). block_shape sy w h (f i) (g i) c) ps) = []"
  by (induction ps) (auto simp: not_box_block_shape)

lemma blocks_of_strip: "filter is_block (cross_cutting_strip services y) = []"
  by (auto simp: cross_cutting_strip_def Let_def filter_empty_conv)

lemma boxes_of_strip:
  "filter is_cross_cutting_box (cross_cutting_strip services y) = cross_cutting_strip services y"
  by (auto simp: cross_cutting_strip_def Let_def filter_id_conv)

lemma length_cross_cutting_strip: "length (cross_cutting_strip services y) = length services"
  by (simp add: cross_cutting_strip_def Let_def)

lemma conceptual_layout_bpr:
  "conceptual_layout (int (length cats)) = (bpr, w, h) \<Longrightarrow> bpr = 0 \<longleftrightarrow> cats = []"
  by (auto simp: conceptual_layout_def split: if_splits)

lemma create_conceptual_slide_empty:
  "create_conceptual_slide [] =
     ([TextBox 0.5 0.3 9 0.8 ''Conceptual Architecture Building Blocks''],
      Inl ZeroDivisionError)"
  by (simp add: create_conceptual_slide_def conceptual_layout_def py_floordiv_def)

lemma create_conceptual_slide_nonempty:
  assumes "cats \<noteq> []" and lay: "conceptual_layout (int (length cats)) = (bpr, w, h)"
    and sy: "sy = 1.3 + of_int ((int (length cats) - 1) div bpr + 1) * (h + 0.4) + 0.3"
  shows "create_conceptual_slide cats =
     (TextBox 0.5 0.3 9 0.8 ''Conceptual Architecture Building Blocks''
        # map (\<lambda>(i, c). block_shape 1.3 w h (int i div bpr) (int i mod bpr) c)
            (filter (\<lambda>(i, c). c \<in> set conceptual_blocks) (enumerate 0 cats))
        @ cross_cutting_strip conceptual_cross_cutting sy
        @ [TextBox 0.5 (sy - 0.3) 9 0.25 ''Cross-cutting Security and Infrastructure Services''],
      Inr (sy, 0.6))"
proof -
  have "bpr \<noteq> 0"
    using conceptual_layout_bpr [OF lay] assms(1) by simp
  then show ?thesis
    by (simp add: create_conceptual_slide_def lay conceptual_loop_char py_floordiv_def sy Let_def)
qed

lemma building_block_layout_bpr:
  "building_block_layout k = (bpr, w, h) \<Longrightarrow> 0 \<le> k \<Longrightarrow> (bpr = 0 \<longleftrightarrow> k = 0) \<and> 0 \<le> bpr"
  by (auto simp: building_block_layout_def split: if_splits)

lemma create_building_block_slide_unknown:
  assumes "filter (\<lambda>cat. cat \<in> set service_recommendations) cats = []"
  shows "create_building_block_slide title req cats =
     ([TextBox 0.5 0.5 9 1 title], Inl ZeroDivisionError)"
  using assms
  by (simp add: create_building_block_slide_def building_block_layout_def py_floordiv_def
        building_block_loop_none split_beta Let_def)

lemma create_building_block_slide_known:
  assumes ne: "filter (\<lambda>cat. cat \<in> set service_recommendations) cats \<noteq> []"
    and lay: "building_block_layout
                (int (length (filter (\<lambda>cat. cat \<in> set service_recommendations) cats)))
              = (bpr, w, h)"
    and sy: "sy = 1.8 + of_int ((int (length (filter (\<lambda>cat. cat \<in> set service_recommendations)
                   cats)) - 1) div bpr + 1) * (h + 0.4) + 0.3"
  shows "create_building_block_slide title req cats =
     (TextBox 0.5 0.5 9 1 title
        # map (\<lambda>(j, c). block_shape 1.8 w h (int j div bpr) (int j mod bpr) c)
            (enumerate 0 (filter (\<lambda>cat. cat \<in> set service_recommendations) cats))
        @ cross_cutting_strip cross_cutting_services sy
        @ [TextBox 0.5 (sy - 0.3) 9 0.25 ''Cross-cutting Security and Infrastructure Services'',
           TextBox 0.5 (sy + 0.6 + 0.2) 9 0.5 (''Requirements: '' @ req)],
      Inr (length cats))"
proof -
  have bpr: "0 < bpr"
    using building_block_layout_bpr [OF lay] ne by auto
  have loop: "snd (building_block_loop bpr w h cats (0, 0) [TextBox 0.5 0.5 9 1 title]) =
      [TextBox 0.5 0.5 9 1 title]
        @ map (\<lambda>(j, c). block_shape 1.8 w h (int j div bpr) (int j mod bpr) c)
            (enumerate 0 (filter (\<lambda>cat. cat \<in> set service_recommendations) cats))"
  proof (rule building_block_loop_char)
    show "(0::int) \<le> 0" by simp
    show "0 < bpr" by (rule bpr)
    show "int 0 = 0 * bpr + 0" by simp
  qed
  show ?thesis
    using bpr loop
    by (simp add: create_building_block_slide_def lay py_floordiv_def split_beta sy Let_def)
qed

lemma conceptual_layout_cases:
  obtains bpr w h where "conceptual_layout n = (bpr, w, h)"
  by (cases "conceptual_layout n") auto

lemma building_block_layout_cases:
  obtains bpr w h where "building_block_layout n = (bpr, w, h)"
  by (cases "building_block_layout n") auto

lemma create_conceptual_slide_raises_iff:
  "snd (create_conceptual_slide cats) = Inl ZeroDivisionError \<longleftrightarrow> cats = []"
proof (cases "cats = []")
  case True
  then show ?thesis by (simp add: create_conceptual_slide_empty)
next
  case False
  obtain bpr w h where lay: "conceptual_layout (int (length cats)) = (bpr, w, h)"
    by (rule conceptual_layout_cases)
  show ?thesis
    using False by (simp add: create_conceptual_slide_nonempty [OF False lay refl])
qed

lemma create_building_block_slide_raises_iff:
  "snd (create_building_block_slide title req cats) = Inl ZeroDivisionError
   \<longleftrightarrow> filter (\<lambda>cat. cat \<in> set service_recommendations) cats = []"
proof (cases "filter (\<lambda>cat. cat \<in> set service_recommendations) cats = []")
  case True
  then show ?thesis by (simp add: create_building_block_slide_unknown)
next
  case False
  obtain bpr w h where lay:
    "building_block_layout (int (length (filter (\<lambda>cat. cat \<in> set service_recommendations) cats)))
       = (bpr, w, h)"
    by (rule building_block_layout_cases)
  show ?thesis
    using False by (simp add: create_building_block_slide_known [OF False lay refl])
qed

lemma conceptual_strip_boxes:
  "length (cross_cutting_boxes (fst (create_conceptual_slide cats)))
     = (if cats = [] then 0 else 7)"
proof (cases "cats = []")
  case True
  then show ?thesis by (simp add: create_conceptual_slide_empty cross_cutting_boxes_def)
next
  case False
  obtain bpr w h where lay: "conceptual_layout (int (length cats)) = (bpr, w, h)"
    by (rule conceptual_layout_cases)
  show ?thesis
    using False
    by (simp add: create_conceptual_slide_nonempty [OF False lay refl] cross_cutting_boxes_def
          boxes_of_block_shapes boxes_of_strip length_cross_cutting_strip
          conceptual_cross_cutting_def)
qed

lemma building_block_strip_boxes:
  "length (cross_cutting_boxes (fst (create_building_block_slide title req cats)))
     = (if filter (\<lambda>cat. cat \<in> set service_recommendations) cats = [] then 0 else 7)"
proof (cases "filter (\<lambda>cat. cat \<in> set service_recommendations) cats = []")
  case True
  then show ?thesis by (simp add: create_building_block_slide_unknown cross_cutting_boxes_def)
next
  case False
  obtain bpr w h where lay:
    "building_block_layout (int (length (filter (\<lambda>cat. cat \<in> set service_recommendations) cats)))
       = (bpr, w, h)"
    by (rule building_block_layout_cases)
  show ?thesis
    using False
    by (simp add: create_building_block_slide_known [OF False lay refl] cross_cutting_boxes_def
          boxes_of_block_shapes boxes_of_strip length_cross_cutting_strip
          cross_cutting_services_def)
qed

lemma conceptual_blocks_char:
  assumes lay: "conceptual_layout (int (length cats)) = (bpr, w, h)"
  shows "blocks (fst (create_conceptual_slide cats)) =
     map (\<lambda>(i, c). block_shape 1.3 w h (int i div bpr) (int i mod bpr) c)
       (filter (\<lambda>(i, c). c \<in> set conceptual_blocks) (enumerate 0 cats))"
proof (cases "cats = []")
  case True
  then show ?thesis by (simp add: create_conceptual_slide_empty blocks_def)
next
  case False
  show ?thesis
    by (simp add: create_conceptual_slide_nonempty [OF False lay refl] blocks_def
          blocks_of_block_shapes blocks_of_strip)
qed

lemma building_block_blocks_char:
  assumes lay:
    "building_block_layout (int (length (filter (\<lambda>cat. cat \<in> set service_recommendations) cats)))
       = (bpr, w, h)"
  shows "blocks (fst (create_building_block_slide title req cats)) =
     map (\<lambda>(j, c). block_shape 1.8 w h (int j div bpr) (int j mod bpr) c)
       (enumerate 0 (filter (\<lambda>cat. cat \<in> set service_recommendations) cats))"
proof (cases "filter (\<lambda>cat. cat \<in> set service_recommendations) cats = []")
  case True
  then show ?thesis by (simp add: create_building_block_slide_unknown blocks_def)
next
  case False
  show ?thesis
    by (simp add: create_building_block_slide_known [OF False lay refl] blocks_def
          blocks_of_block_shapes blocks_of_strip)
qed

lemma geometry_block_shapes:
  "map geometry (map (\<lambda>(i, c). block_shape sy w h (f i) (g i) c) ps)
     = map (\<lambda>i. geometry (block_shape sy w h (f i) (g i) [])) (map fst ps)"
  by (induction ps) (auto simp: block_shape_def Let_def)

lemma same_known_length: "map P xs = map P ys \<Longrightarrow> length xs = length ys"
  using map_eq_imp_length_eq by blast

lemma same_known_indices:
  "map P xs = map P ys \<Longrightarrow>
   map fst (filter (\<lambda>(i, c). P c) (enumerate n xs))
     = map fst (filter (\<lambda>(i, c). P c) (enumerate n ys))"
proof (induction xs arbitrary: ys n)
  case Nil
  then show ?case by simp
next
  case (Cons x xs)
  then obtain y ys' where ys: "ys = y # ys'" and "P x = P y" and "map P xs = map P ys'"
    by (cases ys) auto
  with Cons.IH [of ys' "Suc n"] show ?case by simp
qed

lemma conceptual_same_geometry:
  assumes same: "map (\<lambda>c. c \<in> set conceptual_blocks) xs = map (\<lambda>c. c \<in> set conceptual_blocks) ys"
  shows "map geometry (fst (create_conceptual_slide xs))
           = map geometry (fst (create_conceptual_slide ys))
       \<and> snd (create_conceptual_slide xs) = snd (create_conceptual_slide ys)"
proof (cases "xs = []")
  case True
  with same have "ys = []" by simp
  with True show ?thesis by simp
next
  case False
  have len: "length xs = length ys"
    using same by (rule same_known_length)
  with False have ne: "ys \<noteq> []" by auto
  obtain bpr w h where lay: "conceptual_layout (int (length xs)) = (bpr, w, h)"
    by (rule conceptual_layout_cases)
  have lay': "conceptual_layout (int (length ys)) = (bpr, w, h)"
    using lay len by simp
  have blk:
    "map geometry (map (\<lambda>(i, c). block_shape 1.3 w h (int i div bpr) (int i mod bpr) c)
       (filter (\<lambda>(i, c). c \<in> set conceptual_blocks) (enumerate 0 xs)))
     = map geometry (map (\<lambda>(i, c). block_shape 1.3 w h (int i div bpr) (int i mod bpr) c)
       (filter (\<lambda>(i, c). c \<in> set conceptual_blocks) (enumerate 0 ys)))"
    by (simp only: geometry_block_shapes same_known_indices [OF same])
  show ?thesis
    using blk
    by (simp add: create_conceptual_slide_nonempty [OF False lay refl]
          create_conceptual_slide_nonempty [OF ne lay' refl] len)
qed







lemma create_azure_specific_slide_empty:
  "create_azure_specific_slide [] =
     ([TextBox 0.5 0.3 9 0.8 ''Azure Solution Architecture Building Blocks''],
      Inl ZeroDivisionError)"
  by (simp add: create_azure_specific_slide_def azure_specific_layout_def py_floordiv_def)











section \<open>Claims about the classifiers\<close>

text \<open>
  C2, as amended. For the text \<open>web portal with a database\<close> the classifier of
  BuildingBlockAgent, which has a list of data keywords, yields web_application,
  data_platform and infrastructure, so both web_application and data_platform are among
  its categories. The classifier of the Direct and Unified generators adds data_platform
  only inside its analytics branch and yields web_application alone.
\<close>

theorem web_portal_database_categories:
  "agent_analyze_requirements ''web portal with a database''
     = [''web_application'', ''data_platform'', ''infrastructure'']
   \<and> analyze_requirements ''web portal with a database'' = [''web_application'']"
  by code_simp

text \<open>
  C2, as stated, fails for the classifier of the Direct and Unified generators: its
  result for \<open>web portal with a database\<close> does not contain data_platform.
\<close>

theorem web_portal_database_direct_counterexample:
  "\<not> (''web_application'' \<in> set (analyze_requirements ''web portal with a database'')
      \<and> ''data_platform'' \<in> set (analyze_requirements ''web portal with a database''))"
  by code_simp

text \<open>
  C6. The classifier of BuildingBlockAgent returns, for every text, a non-empty sequence
  whose last element is infrastructure. The classifier of the Direct and Unified
  generators never returns infrastructure. For the text
  \<open>AI-powered customer service with analytics\<close> both results contain ai_analytics, and
  the first one ends with infrastructure.
\<close>

theorem agent_ends_with_infrastructure:
  "agent_analyze_requirements r \<noteq> []
   \<and> last (agent_analyze_requirements r) = ''infrastructure''
   \<and> ''infrastructure'' \<notin> set (analyze_requirements r)
   \<and> ''ai_analytics'' \<in> set (analyze_requirements ''AI-powered customer service with analytics'')
   \<and> ''ai_analytics''
        \<in> set (agent_analyze_requirements ''AI-powered customer service with analytics'')
   \<and> last (agent_analyze_requirements ''AI-powered customer service with analytics'')
        = ''infrastructure''"
proof -
  obtain pre where pre: "agent_needed_categories r = pre @ [''infrastructure'']"
    and fresh: "''infrastructure'' \<notin> set pre"
    using agent_needed_last by blast
  have shape: "agent_analyze_requirements r = dict_fromkeys pre @ [''infrastructure'']"
    by (simp add: agent_analyze_requirements_def pre dict_fromkeys_snoc_new [OF fresh])
  have direct: "''infrastructure'' \<notin> set (analyze_requirements r)"
    by (simp add: analyze_requirements_def set_dict_fromkeys direct_no_infra)
  have ex1: "analyze_requirements ''AI-powered customer service with analytics''
      = [''ai_analytics'']"
    by code_simp
  have ex2: "agent_analyze_requirements ''AI-powered customer service with analytics''
      = [''ai_analytics'', ''data_platform'', ''infrastructure'']"
    by code_simp
  show ?thesis
    using direct by (simp add: shape ex1 ex2)
qed

text \<open>
  C7. Both classifiers return a sequence without duplicates. The triggered categories are
  collected in the fixed order of the checks (the raw list is a subsequence of the list of
  all checks in source order), the result has the same members as the raw list, and it is
  ordered by the position of each category's first trigger: the first occurrence wins.
\<close>

theorem classify_no_duplicates_first_wins:
  "distinct (analyze_requirements r)
   \<and> set (analyze_requirements r) = set (direct_categories r)
   \<and> sorted_wrt (\<lambda>a b. first_index (direct_categories r) a < first_index (direct_categories r) b)
        (analyze_requirements r)
   \<and> subseq (direct_categories r)
        [''web_application'', ''ai_analytics'', ''data_platform'', ''integration'']
   \<and> distinct (agent_analyze_requirements r)
   \<and> set (agent_analyze_requirements r) = set (agent_needed_categories r)
   \<and> sorted_wrt (\<lambda>a b. first_index (agent_needed_categories r) a
                        < first_index (agent_needed_categories r) b)
        (agent_analyze_requirements r)
   \<and> subseq (agent_needed_categories r)
        [''web_application'', ''web_application'', ''ai_analytics'', ''data_platform'',
         ''integration'', ''ai_analytics'', ''web_application'', ''data_platform'',
         ''integration'', ''security'', ''infrastructure'']"
  unfolding analyze_requirements_def agent_analyze_requirements_def
  by (intro conjI distinct_dict_fromkeys set_dict_fromkeys dict_fromkeys_first_wins
        direct_subseq agent_needed_subseq)

text \<open>
  C8. For a text that is empty or consists of whitespace only, the classifier of the Direct
  and Unified generators returns the empty sequence and the classifier of
  BuildingBlockAgent returns the one-element sequence infrastructure.
\<close>

theorem whitespace_only_categories:
  assumes "\<forall>c\<in>set r. isspace c"
  shows "analyze_requirements r = []
       \<and> agent_analyze_requirements r = [''infrastructure'']"
  using assms
  by (simp add: analyze_requirements_def agent_analyze_requirements_def
        direct_categories_whitespace agent_needed_whitespace dict_fromkeys_def dict_insert_def)

theorem whitespace_only_categories_witness:
  "list_all isspace [CHR '' '', CHR 0x09, CHR 0x0A]
   \<and> analyze_requirements [CHR '' '', CHR 0x09, CHR 0x0A] = []
   \<and> agent_analyze_requirements [CHR '' '', CHR 0x09, CHR 0x0A] = [''infrastructure'']
   \<and> list_all isspace ''''
   \<and> analyze_requirements '''' = []
   \<and> agent_analyze_requirements '''' = [''infrastructure'']"
proof -
  have ws: "\<forall>c\<in>set [CHR '' '', CHR 0x09, CHR 0x0A]. isspace c"
    by (simp add: isspace_def)
  have em: "\<forall>c\<in>set ''''. isspace c"
    by simp
  show ?thesis
    using ws em whitespace_only_categories [OF ws] whitespace_only_categories [OF em]
    by simp
qed

text \<open>
  C10. In the classifier of the Direct and Unified generators, data_platform is in the
  result only if ai_analytics is there too and precedes it, and only if one of the
  analytics keywords occurs in the lower-cased text. The text \<open>database\<close> alone does not
  yield data_platform.
\<close>

theorem data_platform_only_after_ai_analytics:
  "(''data_platform'' \<in> set (analyze_requirements r) \<longrightarrow>
      ''ai_analytics'' \<in> set (analyze_requirements r)
      \<and> first_index (analyze_requirements r) ''ai_analytics''
          < first_index (analyze_requirements r) ''data_platform''
      \<and> any_in [''data and intelligence'', ''data intelligence'', ''analytics'', ''ai'',
                 ''machine learning''] (lower r))
   \<and> ''data_platform'' \<notin> set (analyze_requirements ''database'')"
proof -
  have eq: "analyze_requirements r = direct_categories r"
    by (simp add: analyze_requirements_def dict_fromkeys_distinct_id direct_distinct)
  have ex: "analyze_requirements ''database'' = []"
    by code_simp
  show ?thesis
    using direct_data_after_ai [of r] direct_data_needs_ai_keyword [of r]
    by (simp add: eq ex)
qed

theorem data_platform_only_after_ai_analytics_witness:
  "''data_platform'' \<in> set (analyze_requirements ''data analytics'')
   \<and> ''ai_analytics'' \<in> set (analyze_requirements ''data analytics'')
   \<and> first_index (analyze_requirements ''data analytics'') ''ai_analytics''
       < first_index (analyze_requirements ''data analytics'') ''data_platform''"
proof -
  have ex: "analyze_requirements ''data analytics'' = [''ai_analytics'', ''data_platform'']"
    by code_simp
  have "''data_platform'' \<in> set (analyze_requirements ''data analytics'')"
    by (simp add: ex)
  then show ?thesis
    using data_platform_only_after_ai_analytics [of "''data analytics''"] by blast
qed

section \<open>Claims about the layout engine\<close>

text \<open>
  C1. The claim is that the layout succeeds for every category list, the empty one
  included. The code raises ZeroDivisionError exactly on the lists that leave
  \<open>blocks_per_row\<close> at zero: in create_conceptual_slide the empty list, in
  create_building_block_slide of BuildingBlockAgent every list without a catalog key. The
  empty list is what analyze_requirements returns for a text without keywords, such as
  \<open>hello\<close>.
\<close>

theorem empty_category_list_raises:
  "(snd (create_conceptual_slide categories) = Inl ZeroDivisionError) = (categories = [])
   \<and> (snd (create_building_block_slide title requirements categories) = Inl ZeroDivisionError)
       = (filter (\<lambda>cat. cat \<in> set service_recommendations) categories = [])
   \<and> create_conceptual_slide (analyze_requirements ''hello'')
       = ([TextBox 0.5 0.3 9 0.8 ''Conceptual Architecture Building Blocks''],
          Inl ZeroDivisionError)
   \<and> create_building_block_slide title requirements []
       = ([TextBox 0.5 0.5 9 1 title], Inl ZeroDivisionError)"
proof -
  have hello: "analyze_requirements ''hello'' = []"
    by code_simp
  show ?thesis
    by (simp add: create_conceptual_slide_raises_iff create_building_block_slide_raises_iff
          hello create_conceptual_slide_empty create_building_block_slide_unknown)
qed

text \<open>
  C9. The claim is that the strip has exactly 7 boxes for every category list, the empty
  one included. The code draws 7 boxes whenever it reaches the strip, and none when the
  computation of the strip's origin has raised: for the empty list in
  create_conceptual_slide, for a list without a catalog key in create_building_block_slide.
\<close>

theorem cross_cutting_strip_box_count:
  "length (cross_cutting_boxes (fst (create_conceptual_slide categories)))
     = (if categories = [] then 0 else 7)
   \<and> length (cross_cutting_boxes (fst (create_building_block_slide title requirements categories)))
     = (if filter (\<lambda>cat. cat \<in> set service_recommendations) categories = [] then 0 else 7)
   \<and> cross_cutting_boxes (fst (create_conceptual_slide [])) = []
   \<and> cross_cutting_boxes (fst (create_building_block_slide title requirements [])) = []"
proof -
  have direct: "cross_cutting_boxes (fst (create_conceptual_slide [])) = []"
    by (simp add: create_conceptual_slide_empty cross_cutting_boxes_def)
  have agent: "cross_cutting_boxes (fst (create_building_block_slide title requirements [])) = []"
    by (simp add: create_building_block_slide_unknown cross_cutting_boxes_def)
  show ?thesis
    by (simp add: conceptual_strip_boxes building_block_strip_boxes direct agent)
qed

text \<open>
  C3, as amended. In create_conceptual_slide of the Direct and Unified generators a
  category id that is not a key of the catalog draws no block and still takes its slot:
  the blocks are exactly those of the catalog keys, each at row \<open>i div blocks_per_row\<close>
  and column \<open>i mod blocks_per_row\<close> for its index \<open>i\<close> in the whole list. In
  create_building_block_slide of BuildingBlockAgent an unknown id takes no slot: the
  blocks are those of the list with the unknown ids removed.
\<close>

theorem unknown_category_grid_slot:
  "blocks (fst (create_conceptual_slide categories)) =
     (let (blocks_per_row, block_width, block_height) =
            conceptual_layout (int (length categories))
      in map (\<lambda>(i, category).
                block_shape 1.3 block_width block_height
                  (int i div blocks_per_row) (int i mod blocks_per_row) category)
           (filter (\<lambda>(i, category). category \<in> set conceptual_blocks)
              (enumerate 0 categories)))
   \<and> blocks (fst (create_building_block_slide title requirements categories)) =
       blocks (fst (create_building_block_slide title requirements
                 (filter (\<lambda>cat. cat \<in> set service_recommendations) categories)))"
proof -
  obtain bpr w h where lay: "conceptual_layout (int (length categories)) = (bpr, w, h)"
    by (rule conceptual_layout_cases)
  obtain bpr' w' h' where lay':
    "building_block_layout
       (int (length (filter (\<lambda>cat. cat \<in> set service_recommendations) categories)))
     = (bpr', w', h')"
    by (rule building_block_layout_cases)
  have lay'': "building_block_layout
       (int (length (filter (\<lambda>cat. cat \<in> set service_recommendations)
          (filter (\<lambda>cat. cat \<in> set service_recommendations) categories))))
     = (bpr', w', h')"
    using lay' by simp
  show ?thesis
    by (simp add: conceptual_blocks_char [OF lay] lay building_block_blocks_char [OF lay']
          building_block_blocks_char [OF lay''])
qed

text \<open>
  C3, as stated, fails in create_building_block_slide of BuildingBlockAgent. In the list
  \<open>legacy, web_application\<close> the known category has index 1 and \<open>blocks_per_row\<close> is 1,
  so the claim puts it at row 1, column 0; the code draws it at row 0, column 0, where it
  also is when \<open>legacy\<close> is removed from the list.
\<close>

theorem unknown_category_grid_slot_counterexample:
  "blocks (fst (create_building_block_slide ''t'' ''r'' [''legacy'', ''web_application'']))
     = [block_shape 1.8 2.8 2.0 0 0 ''web_application'']
   \<and> blocks (fst (create_building_block_slide ''t'' ''r'' [''legacy'', ''web_application'']))
     \<noteq> [block_shape 1.8 2.8 2.0 (1 div 1) (1 mod 1) ''web_application'']
   \<and> blocks (fst (create_building_block_slide ''t'' ''r'' [''legacy'', ''web_application'']))
     = blocks (fst (create_building_block_slide ''t'' ''r'' [''web_application'']))"
  by (simp add: create_building_block_slide_def building_block_layout_def
        service_recommendations_def py_floordiv_def blocks_def block_shape_def
        blocks_of_strip Let_def)

text \<open>
  C4, as amended. In create_building_block_slide of BuildingBlockAgent the blocks per row
  and the block size are a step function of the number \<open>k\<close> of catalog keys in the list:
  up to 3 give one row of \<open>k\<close> blocks of 2.8 by 2.0, 4 to 6 give 3 per row of 2.5 by 1.8,
  more than 6 give 3 per row of 2.2 by 1.5. In create_conceptual_slide of the Direct and
  Unified generators they are a step function of the list length \<open>n\<close> with two steps: up
  to 3 give one row of \<open>n\<close> slots of 2.8 by 2.2, more than 3 give 3 per row of 2.5 by 2.0.
  A list of 5 catalog keys gives two rows of 3 and 2 blocks, of 2.5 by 1.8 in the first
  variant and of 2.5 by 2.0 in the second.
\<close>

theorem block_size_tiers:
  "blocks (fst (create_building_block_slide title requirements categories)) =
     (let known = filter (\<lambda>cat. cat \<in> set service_recommendations) categories;
          k = int (length known);
          (blocks_per_row, block_width, block_height) =
            (if k \<le> 3 then (k, 2.8, 2.0) else if k \<le> 6 then (3, 2.5, 1.8) else (3, 2.2, 1.5))
      in map (\<lambda>(j, category).
                block_shape 1.8 block_width block_height
                  (int j div blocks_per_row) (int j mod blocks_per_row) category)
           (enumerate 0 known))
   \<and> blocks (fst (create_conceptual_slide categories)) =
     (let n = int (length categories);
          (blocks_per_row, block_width, block_height) =
            (if n \<le> 3 then (n, 2.8, 2.2) else (3, 2.5, 2.0))
      in map (\<lambda>(i, category).
                block_shape 1.3 block_width block_height
                  (int i div blocks_per_row) (int i mod blocks_per_row) category)
           (filter (\<lambda>(i, category). category \<in> set conceptual_blocks)
              (enumerate 0 categories)))
   \<and> blocks (fst (create_building_block_slide title requirements
         [''web_application'', ''ai_analytics'', ''data_platform'', ''integration'',
          ''security''])) =
       [block_shape 1.8 2.5 1.8 0 0 ''web_application'',
        block_shape 1.8 2.5 1.8 0 1 ''ai_analytics'',
        block_shape 1.8 2.5 1.8 0 2 ''data_platform'',
        block_shape 1.8 2.5 1.8 1 0 ''integration'',
        block_shape 1.8 2.5 1.8 1 1 ''security'']
   \<and> blocks (fst (create_conceptual_slide
         [''web_application'', ''ai_analytics'', ''data_platform'', ''integration'',
          ''web_application''])) =
       [block_shape 1.3 2.5 2.0 0 0 ''web_application'',
        block_shape 1.3 2.5 2.0 0 1 ''ai_analytics'',
        block_shape 1.3 2.5 2.0 0 2 ''data_platform'',
        block_shape 1.3 2.5 2.0 1 0 ''integration'',
        block_shape 1.3 2.5 2.0 1 1 ''web_application'']"
proof -
  have agent: "blocks (fst (create_building_block_slide t r cats)) =
     (let known = filter (\<lambda>cat. cat \<in> set service_recommendations) cats;
          k = int (length known);
          (blocks_per_row, block_width, block_height) =
            (if k \<le> 3 then (k, 2.8, 2.0) else if k \<le> 6 then (3, 2.5, 1.8) else (3, 2.2, 1.5))
      in map (\<lambda>(j, category).
                block_shape 1.8 block_width block_height
                  (int j div blocks_per_row) (int j mod blocks_per_row) category)
           (enumerate 0 known))" for t r cats
  proof -
    obtain bpr w h where lay:
      "building_block_layout (int (length (filter (\<lambda>cat. cat \<in> set service_recommendations) cats)))
         = (bpr, w, h)"
      by (rule building_block_layout_cases)
    show ?thesis
      using lay
      by (simp only: building_block_blocks_char [OF lay] Let_def)
         (simp add: building_block_layout_def)
  qed
  have direct: "blocks (fst (create_conceptual_slide cats)) =
     (let n = int (length cats);
          (blocks_per_row, block_width, block_height) =
            (if n \<le> 3 then (n, 2.8, 2.2) else (3, 2.5, 2.0))
      in map (\<lambda>(i, category).
                block_shape 1.3 block_width block_height
                  (int i div blocks_per_row) (int i mod blocks_per_row) category)
           (filter (\<lambda>(i, category). category \<in> set conceptual_blocks)
              (enumerate 0 cats)))" for cats
  proof -
    obtain bpr w h where lay: "conceptual_layout (int (length cats)) = (bpr, w, h)"
      by (rule conceptual_layout_cases)
    show ?thesis
      using lay
      by (simp only: conceptual_blocks_char [OF lay] Let_def)
         (simp add: conceptual_layout_def)
  qed
  have five_agent: "blocks (fst (create_building_block_slide title requirements
         [''web_application'', ''ai_analytics'', ''data_platform'', ''integration'',
          ''security''])) =
       [block_shape 1.8 2.5 1.8 0 0 ''web_application'',
        block_shape 1.8 2.5 1.8 0 1 ''ai_analytics'',
        block_shape 1.8 2.5 1.8 0 2 ''data_platform'',
        block_shape 1.8 2.5 1.8 1 0 ''integration'',
        block_shape 1.8 2.5 1.8 1 1 ''security'']"
    by (simp add: agent service_recommendations_def enumerate_eq_zip upt_rec Let_def)
  have five_direct: "blocks (fst (create_conceptual_slide
         [''web_application'', ''ai_analytics'', ''data_platform'', ''integration'',
          ''web_application''])) =
       [block_shape 1.3 2.5 2.0 0 0 ''web_application'',
        block_shape 1.3 2.5 2.0 0 1 ''ai_analytics'',
        block_shape 1.3 2.5 2.0 0 2 ''data_platform'',
        block_shape 1.3 2.5 2.0 1 0 ''integration'',
        block_shape 1.3 2.5 2.0 1 1 ''web_application'']"
    by (simp add: direct conceptual_blocks_def enumerate_eq_zip upt_rec Let_def)
  show ?thesis
    by (intro conjI agent direct five_agent five_direct)
qed

text \<open>
  C4, as stated, fails in both variants. In BuildingBlockAgent a list of 4 categories of
  which one is not a catalog key is laid out in the large size 2.8 by 2.0, not the
  mid-tier size 2.5 by 1.8 of 4 to 6 categories. In the Direct and Unified generators a
  list of 7 categories gets blocks of 2.5 by 2.0, the size of 4 to 6 categories and not a
  smaller one.
\<close>

theorem block_size_tiers_counterexample:
  "blocks (fst (create_building_block_slide ''t'' ''r''
      [''web_application'', ''ai_analytics'', ''data_platform'', ''legacy'']))
     = [block_shape 1.8 2.8 2.0 0 0 ''web_application'',
        block_shape 1.8 2.8 2.0 0 1 ''ai_analytics'',
        block_shape 1.8 2.8 2.0 0 2 ''data_platform'']
   \<and> blocks (fst (create_building_block_slide ''t'' ''r''
      [''web_application'', ''ai_analytics'', ''data_platform'', ''legacy'']))
     \<noteq> [block_shape 1.8 2.5 1.8 0 0 ''web_application'',
        block_shape 1.8 2.5 1.8 0 1 ''ai_analytics'',
        block_shape 1.8 2.5 1.8 0 2 ''data_platform'']
   \<and> blocks (fst (create_conceptual_slide
      [''web_application'', ''ai_analytics'', ''data_platform'', ''integration'',
       ''web_application'', ''ai_analytics'', ''data_platform'']))
     = [block_shape 1.3 2.5 2.0 0 0 ''web_application'',
        block_shape 1.3 2.5 2.0 0 1 ''ai_analytics'',
        block_shape 1.3 2.5 2.0 0 2 ''data_platform'',
        block_shape 1.3 2.5 2.0 1 0 ''integration'',
        block_shape 1.3 2.5 2.0 1 1 ''web_application'',
        block_shape 1.3 2.5 2.0 1 2 ''ai_analytics'',
        block_shape 1.3 2.5 2.0 2 0 ''data_platform'']"
  by (simp add: create_building_block_slide_def building_block_layout_def
        service_recommendations_def create_conceptual_slide_def conceptual_layout_def
        conceptual_blocks_def py_floordiv_def py_mod_def blocks_def block_shape_def
        blocks_of_strip enumerate_eq_zip upt_rec Let_def)




end
